theory Spec2Isabelle
  imports Complex_Main
begin

section \<open>The drive-by-wire node of \<^verbatim>\<open>ros/src/twist_controller/dbw_node.py\<close>\<close>

text \<open>
  The node keeps the most recent proposed velocity, the most recent measured velocity and
  the drive-by-wire enable flag in fields of one object. Three subscriber callbacks write
  the fields; a loop reads them at 50 Hz, asks the controller for a
  (throttle, brake, steering) triple and publishes it while drive-by-wire is enabled.

  The velocities, pedal values and vehicle parameters are Python floats. The node does no
  arithmetic on them: it stores them, tests the stored fields against \<^verbatim>\<open>None\<close>
  and hands them on. They are modelled as \<^typ>\<open>real\<close>.
\<close>

type_synonym scalar = real

subsection \<open>Inbound messages\<close>

text \<open>
  \<^verbatim>\<open>geometry_msgs/TwistStamped\<close> and \<^verbatim>\<open>std_msgs/Bool\<close> as the callbacks
  receive them. The fields of the nested header, stamp and twist are written with their
  path: \<^verbatim>\<open>msg.twist.linear.x\<close> is \<open>twist_linear_x msg\<close>. Every numeric field of a
  deserialised message holds a number, never \<^verbatim>\<open>None\<close>.
\<close>

record TwistStamped =
  header_seq :: nat
  header_stamp_secs :: int
  header_stamp_nsecs :: int
  header_frame_id :: string
  twist_linear_x :: scalar
  twist_linear_y :: scalar
  twist_linear_z :: scalar
  twist_angular_x :: scalar
  twist_angular_y :: scalar
  twist_angular_z :: scalar

record Bool_msg =
  data :: bool

subsection \<open>Outbound messages\<close>

text \<open>
  Modelled from the spec: the message declarations of \<^verbatim>\<open>dbw_mkz_msgs\<close>
  (\<^verbatim>\<open>ThrottleCmd\<close>, \<^verbatim>\<open>SteeringCmd\<close>, \<^verbatim>\<open>BrakeCmd\<close>) are not among the
  sources. The spec gives each command an enabled flag and a value, and the throttle and
  brake commands a command type. The records hold the fields that \<^verbatim>\<open>publish\<close>
  assigns; a freshly constructed message has every field at its zero value.
\<close>

datatype cmd_type = CMD_NONE | CMD_PEDAL | CMD_PERCENT | CMD_TORQUE

record ThrottleCmd =
  throttle_enable :: bool
  throttle_pedal_cmd_type :: cmd_type
  throttle_pedal_cmd :: scalar

record SteeringCmd =
  steering_enable :: bool
  steering_wheel_angle_cmd :: scalar

record BrakeCmd =
  brake_enable :: bool
  brake_pedal_cmd_type :: cmd_type
  brake_pedal_cmd :: scalar

definition ThrottleCmd_new :: ThrottleCmd where
  "ThrottleCmd_new =
     \<lparr>throttle_enable = False, throttle_pedal_cmd_type = CMD_NONE, throttle_pedal_cmd = 0\<rparr>"

definition SteeringCmd_new :: SteeringCmd where
  "SteeringCmd_new = \<lparr>steering_enable = False, steering_wheel_angle_cmd = 0\<rparr>"

definition BrakeCmd_new :: BrakeCmd where
  "BrakeCmd_new =
     \<lparr>brake_enable = False, brake_pedal_cmd_type = CMD_NONE, brake_pedal_cmd = 0\<rparr>"

subsection \<open>Observable effects\<close>

text \<open>
  What the node does to the outside, in the order it does it: a call of
  \<^verbatim>\<open>self.controller.control\<close> with its four arguments, and a message handed to one
  of the three publishers.
\<close>

datatype effect =
    Control_called scalar scalar scalar bool
  | Throttle_pub ThrottleCmd
  | Steer_pub SteeringCmd
  | Brake_pub BrakeCmd

fun is_control :: "effect \<Rightarrow> bool" where
  "is_control (Control_called _ _ _ _) = True"
| "is_control _ = False"

fun is_command :: "effect \<Rightarrow> bool" where
  "is_command (Control_called _ _ _ _) = False"
| "is_command _ = True"

fun enable_flag :: "effect \<Rightarrow> bool option" where
  "enable_flag (Control_called _ _ _ _) = None"
| "enable_flag (Throttle_pub m) = Some (throttle_enable m)"
| "enable_flag (Steer_pub m) = Some (steering_enable m)"
| "enable_flag (Brake_pub m) = Some (brake_enable m)"

subsection \<open>The node object\<close>

text \<open>
  The fields of \<^verbatim>\<open>DBWNode\<close>. \<open>'c\<close> is the state of the controller object, which
  lives in \<^verbatim>\<open>twist_controller.py\<close>. \<^verbatim>\<open>_time_nsecs\<close> is written \<open>time_nsecs\<close>.
  \<^verbatim>\<open>None\<close> is \<open>None\<close>. The publishers are handles without state of their own: what
  is handed to them is an effect.
\<close>

record 'c DBWNode =
  controller :: 'c
  proposed_linear_vel :: "scalar option"
  proposed_angular_vel :: "scalar option"
  current_linear_vel :: "scalar option"
  current_anuglar_vel :: "scalar option"
  time_nsecs :: "int option"
  dbw_enabled :: bool

subsection \<open>\<^verbatim>\<open>__init__\<close>\<close>

text \<open>
  \<^verbatim>\<open>rospy.get_param(name, default)\<close>: the value stored on the parameter server under
  the name, the default when there is none.
\<close>

definition get_param :: "(string \<rightharpoonup> scalar) \<Rightarrow> string \<Rightarrow> scalar \<Rightarrow> scalar" where
  "get_param ps name dflt = (case ps name of Some v \<Rightarrow> v | None \<Rightarrow> dflt)"

text \<open>
  The constructor of the controller is in \<^verbatim>\<open>twist_controller.py\<close>, not among the
  sources; it is the parameter \<open>Controller\<close>, called with nine positional arguments.
  The constructor reads the ten parameters, builds the controller, and sets the input
  fields to \<^verbatim>\<open>None\<close> and the enable flag to \<^verbatim>\<open>False\<close>. (The source then enters
  \<^verbatim>\<open>loop\<close>; that is \<open>DBWNode_main\<close> below. \<^verbatim>\<open>WRITE_CSV_LOG\<close> is the constant
  \<^verbatim>\<open>False\<close>, so the log file is never opened.)
\<close>

type_synonym 'c controller_ctor =
  "scalar \<Rightarrow> scalar \<Rightarrow> scalar \<Rightarrow> scalar \<Rightarrow> scalar \<Rightarrow> scalar \<Rightarrow> scalar \<Rightarrow> scalar \<Rightarrow> scalar \<Rightarrow> 'c"

definition init :: "'c controller_ctor \<Rightarrow> (string \<rightharpoonup> scalar) \<Rightarrow> 'c DBWNode" where
  "init Controller ps =
    (let vehicle_mass = get_param ps ''~vehicle_mass'' 1736.35;
         fuel_capacity = get_param ps ''~fuel_capacity'' 13.5;
         brake_deadband = get_param ps ''~brake_deadband'' 0.1;
         decel_limit = get_param ps ''~decel_limit'' (- 5);
         accel_limit = get_param ps ''~accel_limit'' 1;
         wheel_radius = get_param ps ''~wheel_radius'' 0.2413;
         wheel_base = get_param ps ''~wheel_base'' 2.8498;
         steer_ratio = get_param ps ''~steer_ratio'' 14.8;
         max_lat_accel = get_param ps ''~max_lat_accel'' 3;
         max_steer_angle = get_param ps ''~max_steer_angle'' 8
     in \<lparr>controller =
            Controller vehicle_mass wheel_radius accel_limit decel_limit wheel_base
              steer_ratio 0.1 max_lat_accel max_steer_angle,
         proposed_linear_vel = None,
         proposed_angular_vel = None,
         current_linear_vel = None,
         current_anuglar_vel = None,
         time_nsecs = None,
         dbw_enabled = False\<rparr>)"

subsection \<open>The subscriber callbacks\<close>

definition proposed_cb :: "'c DBWNode \<Rightarrow> TwistStamped \<Rightarrow> 'c DBWNode" where
  "proposed_cb self msg =
     self\<lparr>proposed_linear_vel := Some (twist_linear_x msg),
          proposed_angular_vel := Some (twist_angular_z msg),
          time_nsecs := Some (header_stamp_nsecs msg)\<rparr>"

definition current_cb :: "'c DBWNode \<Rightarrow> TwistStamped \<Rightarrow> 'c DBWNode" where
  "current_cb self msg = self\<lparr>current_linear_vel := Some (twist_linear_x msg)\<rparr>"

definition dbw_enabled_cb :: "'c DBWNode \<Rightarrow> Bool_msg \<Rightarrow> 'c DBWNode" where
  "dbw_enabled_cb self msg = self\<lparr>dbw_enabled := data msg\<rparr>"

subsection \<open>\<^verbatim>\<open>publish\<close>\<close>

text \<open>
  Each message is constructed, its fields are assigned one after the other, and it is
  handed to its publisher before the next message is built. The result is the list of
  effects in that order.
\<close>

definition publish :: "scalar \<Rightarrow> scalar \<Rightarrow> scalar \<Rightarrow> effect list" where
  "publish throttle brake steer =
    (let tcmd = ThrottleCmd_new;
         tcmd = tcmd\<lparr>throttle_enable := True\<rparr>;
         tcmd = tcmd\<lparr>throttle_pedal_cmd_type := CMD_PERCENT\<rparr>;
         tcmd = tcmd\<lparr>throttle_pedal_cmd := throttle\<rparr>;
         out = [Throttle_pub tcmd];
         scmd = SteeringCmd_new;
         scmd = scmd\<lparr>steering_enable := True\<rparr>;
         scmd = scmd\<lparr>steering_wheel_angle_cmd := steer\<rparr>;
         out = out @ [Steer_pub scmd];
         bcmd = BrakeCmd_new;
         bcmd = bcmd\<lparr>brake_enable := True\<rparr>;
         bcmd = bcmd\<lparr>brake_pedal_cmd_type := CMD_TORQUE\<rparr>;
         bcmd = bcmd\<lparr>brake_pedal_cmd := brake\<rparr>;
         out = out @ [Brake_pub bcmd]
     in out)"

subsection \<open>One pass through the body of \<^verbatim>\<open>loop\<close>\<close>

text \<open>
  \<^verbatim>\<open>Controller.control\<close> is in \<^verbatim>\<open>twist_controller.py\<close>, not among the sources; it
  is the parameter \<open>control\<close>. It reads and changes the controller's state and returns
  the triple (throttle, brake, steering), or raises (\<open>Inl\<close>). No handler in the node
  catches the exception, so the state of the controller after a raise is never read again
  and is not part of the result.
\<close>

type_synonym ('c, 'e) control_fn =
  "'c \<Rightarrow> scalar \<Rightarrow> scalar \<Rightarrow> scalar \<Rightarrow> bool \<Rightarrow> 'e + ((scalar \<times> scalar \<times> scalar) \<times> 'c)"

text \<open>
  The body of the \<^verbatim>\<open>while\<close> loop up to \<^verbatim>\<open>rate.sleep()\<close>, on the fields as they
  are when the pass starts. The result is the effects of the pass, and either the
  exception that left the body or the node after the pass. There is no
  \<^verbatim>\<open>try\<close> in the source, so an exception of \<^verbatim>\<open>control\<close> leaves the body at the
  call, before \<^verbatim>\<open>publish\<close>. The row written to the csv log is under
  \<^verbatim>\<open>if WRITE_CSV_LOG\<close>, which is the constant \<^verbatim>\<open>False\<close>.
\<close>

definition tick ::
  "('c, 'e) control_fn \<Rightarrow> 'c DBWNode \<Rightarrow> effect list \<times> ('e + 'c DBWNode)" where
  "tick control self =
    (if proposed_linear_vel self \<noteq> None
        \<and> proposed_angular_vel self \<noteq> None
        \<and> current_linear_vel self \<noteq> None
     then
       (let call = Control_called (the (proposed_linear_vel self))
                     (the (proposed_angular_vel self))
                     (the (current_linear_vel self))
                     (dbw_enabled self)
        in case control (controller self)
                  (the (proposed_linear_vel self))
                  (the (proposed_angular_vel self))
                  (the (current_linear_vel self))
                  (dbw_enabled self) of
             Inl e \<Rightarrow> ([call], Inl e)
           | Inr ((throttle, brake, steering), c') \<Rightarrow>
               (if dbw_enabled self
                then (call # publish throttle brake steering, Inr (self\<lparr>controller := c'\<rparr>))
                else ([call], Inr (self\<lparr>controller := c'\<rparr>))))
     else ([], Inr self))"

subsection \<open>The loop and the callbacks that run between its passes\<close>

text \<open>
  The loop runs until \<^verbatim>\<open>rospy.is_shutdown()\<close> holds; between two passes the
  subscriber callbacks run as messages arrive. A schedule lists what happens, in order:
  the arrival of a message on one of the three topics, a pass of the loop body
  (\<open>Tick\<close>), or the shutdown signal. The loop over a schedule ends in one of three ways:
  the schedule is used up and the loop is still running, the shutdown signal ended it, or
  an exception left it. Here a callback and a pass of the loop body are each one step of a
  schedule, so steps do not overlap; the threads are taken statement by statement further
  down. \<^verbatim>\<open>rate.sleep()\<close> only takes time; what arrives during the sleep is in
  the schedule between two \<open>Tick\<close>s.
\<close>

datatype event =
    Proposed TwistStamped
  | Current TwistStamped
  | Enabled Bool_msg
  | Tick
  | Shutdown

datatype ('c, 'e) status =
    Running "'c DBWNode"
  | Stopped "'c DBWNode"
  | Raised 'e

fun loop ::
  "('c, 'e) control_fn \<Rightarrow> 'c DBWNode \<Rightarrow> event list \<Rightarrow> effect list \<times> ('c, 'e) status" where
  "loop control self [] = ([], Running self)"
| "loop control self (Proposed msg # evs) = loop control (proposed_cb self msg) evs"
| "loop control self (Current msg # evs) = loop control (current_cb self msg) evs"
| "loop control self (Enabled msg # evs) = loop control (dbw_enabled_cb self msg) evs"
| "loop control self (Shutdown # evs) = ([], Stopped self)"
| "loop control self (Tick # evs) =
     (case tick control self of
        (out, Inl e) \<Rightarrow> (out, Raised e)
      | (out, Inr self') \<Rightarrow>
          (case loop control self' evs of (out', st) \<Rightarrow> (out @ out', st)))"

definition DBWNode_main ::
  "'c controller_ctor \<Rightarrow> ('c, 'e) control_fn \<Rightarrow> (string \<rightharpoonup> scalar) \<Rightarrow> event list
     \<Rightarrow> effect list \<times> ('c, 'e) status" where
  "DBWNode_main Controller control ps evs = loop control (init Controller ps) evs"

text \<open>The three input fields the loop tests are all set.\<close>

definition ready :: "'c DBWNode \<Rightarrow> bool" where
  "ready self \<longleftrightarrow>
     proposed_linear_vel self \<noteq> None
     \<and> proposed_angular_vel self \<noteq> None
     \<and> current_linear_vel self \<noteq> None"

subsection \<open>The threads, statement by statement\<close>

text \<open>
  The main thread is inside \<^verbatim>\<open>loop\<close> from line 119 on, so every callback runs on
  a thread of its subscriber, and the file takes no lock. Above, a callback and a pass of
  the loop body are each one step. Here each statement that reads or writes a field of
  the node is a step of its own, and a schedule may put the steps of the threads in any
  order.

  A callback is the list of its assignments, named by their line: \<^verbatim>\<open>proposed_cb\<close>
  assigns at lines 177, 178 and 180, \<^verbatim>\<open>current_cb\<close> at line 183,
  \<^verbatim>\<open>dbw_enabled_cb\<close> at line 188.
\<close>

datatype assign =
    W_177 TwistStamped
  | W_178 TwistStamped
  | W_180 TwistStamped
  | W_183 TwistStamped
  | W_188 Bool_msg

fun assign_to :: "'c DBWNode \<Rightarrow> assign \<Rightarrow> 'c DBWNode" where
  "assign_to self (W_177 msg) = self\<lparr>proposed_linear_vel := Some (twist_linear_x msg)\<rparr>"
| "assign_to self (W_178 msg) = self\<lparr>proposed_angular_vel := Some (twist_angular_z msg)\<rparr>"
| "assign_to self (W_180 msg) = self\<lparr>time_nsecs := Some (header_stamp_nsecs msg)\<rparr>"
| "assign_to self (W_183 msg) = self\<lparr>current_linear_vel := Some (twist_linear_x msg)\<rparr>"
| "assign_to self (W_188 msg) = self\<lparr>dbw_enabled := data msg\<rparr>"

definition assigns :: "'c DBWNode \<Rightarrow> assign list \<Rightarrow> 'c DBWNode" where
  "assigns self ws = foldl assign_to self ws"

definition proposed_cb_body :: "TwistStamped \<Rightarrow> assign list" where
  "proposed_cb_body msg = [W_177 msg, W_178 msg, W_180 msg]"

definition current_cb_body :: "TwistStamped \<Rightarrow> assign list" where
  "current_cb_body msg = [W_183 msg]"

definition dbw_enabled_cb_body :: "Bool_msg \<Rightarrow> assign list" where
  "dbw_enabled_cb_body msg = [W_188 msg]"

text \<open>
  The main thread, from line 89 of \<^verbatim>\<open>__init__\<close> on: where it is, named by the line
  it is about to execute, with the values it has read so far. The three subscribers are
  registered at lines 83 to 87, before the fields are assigned at lines 89 to 100, so
  callbacks can run from \<open>At_89\<close> on. \<open>At_134\<close> to \<open>At_136\<close> carry the arguments of
  \<^verbatim>\<open>control\<close> read so far, as they were read (\<^verbatim>\<open>None\<close> included); \<open>At_138\<close> and
  \<open>At_139\<close> carry the triple that \<^verbatim>\<open>control\<close> returned. The thread ends in
  \<open>Exited\<close> (shutdown seen at line 124) or \<open>Raised_at\<close> (an exception left the loop).
  \<open>Unset_passed\<close> stands for \<^verbatim>\<open>control\<close> being called with a \<^verbatim>\<open>None\<close>
  argument, which is outside what is known of the controller; it is shown below that the
  loop never gets there.
\<close>

datatype 'e main_pc =
    At_89 | At_90 | At_93 | At_94 | At_98 | At_100
  | At_124
  | At_128 | At_129 | At_130
  | At_133
  | At_134 "scalar option"
  | At_135 "scalar option" "scalar option"
  | At_136 "scalar option" "scalar option" "scalar option"
  | At_138 scalar scalar scalar
  | At_139 scalar scalar scalar
  | At_153
  | Exited
  | Raised_at 'e
  | Unset_passed

text \<open>
  One step of the main thread: the effects of the step, the next position and the node.
  The condition of lines 128 to 130 reads one field per line and leaves the pass at the
  first that is \<^verbatim>\<open>None\<close>. Lines 133 to 136 read the four arguments one after the
  other; the call is taken together with the read of line 136, since the controller
  reads no field of the node. Line 138 reads \<^verbatim>\<open>dbw_enabled\<close> again. \<^verbatim>\<open>publish\<close>
  reads no field, so its three dispatches are one step.
\<close>

fun main_at ::
  "('c, 'e) control_fn \<Rightarrow> 'e main_pc \<Rightarrow> 'c DBWNode \<Rightarrow> bool
     \<Rightarrow> effect list \<times> 'e main_pc \<times> 'c DBWNode" where
  "main_at control At_89 self sd = ([], At_90, self\<lparr>proposed_linear_vel := None\<rparr>)"
| "main_at control At_90 self sd = ([], At_93, self\<lparr>proposed_angular_vel := None\<rparr>)"
| "main_at control At_93 self sd = ([], At_94, self\<lparr>current_linear_vel := None\<rparr>)"
| "main_at control At_94 self sd = ([], At_98, self\<lparr>current_anuglar_vel := None\<rparr>)"
| "main_at control At_98 self sd = ([], At_100, self\<lparr>time_nsecs := None\<rparr>)"
| "main_at control At_100 self sd = ([], At_124, self\<lparr>dbw_enabled := False\<rparr>)"
| "main_at control At_124 self sd = ([], if sd then Exited else At_128, self)"
| "main_at control At_128 self sd =
     ([], if proposed_linear_vel self \<noteq> None then At_129 else At_153, self)"
| "main_at control At_129 self sd =
     ([], if proposed_angular_vel self \<noteq> None then At_130 else At_153, self)"
| "main_at control At_130 self sd =
     ([], if current_linear_vel self \<noteq> None then At_133 else At_153, self)"
| "main_at control At_133 self sd = ([], At_134 (proposed_linear_vel self), self)"
| "main_at control (At_134 pl) self sd = ([], At_135 pl (proposed_angular_vel self), self)"
| "main_at control (At_135 pl pa) self sd = ([], At_136 pl pa (current_linear_vel self), self)"
| "main_at control (At_136 (Some pl) (Some pa) (Some cl)) self sd =
     (case control (controller self) pl pa cl (dbw_enabled self) of
        Inl e \<Rightarrow> ([Control_called pl pa cl (dbw_enabled self)], Raised_at e, self)
      | Inr ((throttle, brake, steering), c') \<Rightarrow>
          ([Control_called pl pa cl (dbw_enabled self)], At_138 throttle brake steering,
           self\<lparr>controller := c'\<rparr>))"
| "main_at control (At_136 _ _ _) self sd = ([], Unset_passed, self)"
| "main_at control (At_138 throttle brake steering) self sd =
     ([], if dbw_enabled self then At_139 throttle brake steering else At_153, self)"
| "main_at control (At_139 throttle brake steering) self sd =
     (publish throttle brake steering, At_153, self)"
| "main_at control At_153 self sd = ([], At_124, self)"
| "main_at control Exited self sd = ([], Exited, self)"
| "main_at control (Raised_at e) self sd = ([], Raised_at e, self)"
| "main_at control Unset_passed self sd = ([], Unset_passed, self)"

text \<open>
  The process: the position of the main thread, the node object that all threads share,
  and whether shutdown has been signalled. A schedule is a list of actions: a step of the
  main thread, one assignment of a callback, or the shutdown signal.
\<close>

record ('c, 'e) threads =
  main :: "'e main_pc"
  obj :: "'c DBWNode"
  shut :: bool

datatype action = Main | Callback assign | Signal_shutdown

fun fstep ::
  "('c, 'e) control_fn \<Rightarrow> action \<Rightarrow> ('c, 'e) threads \<Rightarrow> effect list \<times> ('c, 'e) threads" where
  "fstep control Main t =
     (case main_at control (main t) (obj t) (shut t) of
        (out, pc, self) \<Rightarrow> (out, t\<lparr>main := pc, obj := self\<rparr>))"
| "fstep control (Callback w) t = ([], t\<lparr>obj := assign_to (obj t) w\<rparr>)"
| "fstep control Signal_shutdown t = ([], t\<lparr>shut := True\<rparr>)"

fun frun ::
  "('c, 'e) control_fn \<Rightarrow> ('c, 'e) threads \<Rightarrow> action list \<Rightarrow> effect list \<times> ('c, 'e) threads" where
  "frun control t [] = ([], t)"
| "frun control t (a # acts) =
     (case fstep control a t of
        (out, t') \<Rightarrow> (case frun control t' acts of (out', t'') \<Rightarrow> (out @ out', t'')))"

text \<open>
  The object when the subscribers are registered: the controller is built and no input
  field is assigned yet. A field that does not exist yet is written \<open>None\<close>
  (\<open>False\<close> for the flag); the main thread reads no field before line 128, after it has
  assigned them all.
\<close>

definition constructed :: "'c controller_ctor \<Rightarrow> (string \<rightharpoonup> scalar) \<Rightarrow> 'c DBWNode" where
  "constructed Controller ps =
     \<lparr>controller = controller (init Controller ps),
      proposed_linear_vel = None, proposed_angular_vel = None, current_linear_vel = None,
      current_anuglar_vel = None, time_nsecs = None, dbw_enabled = False\<rparr>"

definition starting :: "'c controller_ctor \<Rightarrow> (string \<rightharpoonup> scalar) \<Rightarrow> ('c, 'e) threads" where
  "starting Controller ps = \<lparr>main = At_89, obj = constructed Controller ps, shut = False\<rparr>"

definition DBWNode_threads ::
  "'c controller_ctor \<Rightarrow> ('c, 'e) control_fn \<Rightarrow> (string \<rightharpoonup> scalar) \<Rightarrow> action list
     \<Rightarrow> effect list \<times> ('c, 'e) threads" where
  "DBWNode_threads Controller control ps acts = frun control (starting Controller ps) acts"

text \<open>The main thread at the head of the loop, no shutdown signalled.\<close>

definition looping :: "'c DBWNode \<Rightarrow> ('c, 'e) threads" where
  "looping self = \<lparr>main = At_124, obj = self, shut = False\<rparr>"

definition cbs :: "assign list \<Rightarrow> action list" where
  "cbs ws = map Callback ws"

text \<open>
  The number of passes completed in a run: the steps of the main thread taken at line 153.
\<close>

fun sleeps :: "('c, 'e) control_fn \<Rightarrow> ('c, 'e) threads \<Rightarrow> action list \<Rightarrow> nat" where
  "sleeps control t [] = 0"
| "sleeps control t (a # acts) =
     (if a = Main \<and> main t = At_153 then 1 else 0)
     + sleeps control (snd (fstep control a t)) acts"

text \<open>
  The main thread is in the loop and the arguments it has read so far are set; the main
  thread is past the assignments of \<^verbatim>\<open>__init__\<close>; and whether it is past the
  call of the controller in the pass it is in.
\<close>

fun in_loop :: "'e main_pc \<Rightarrow> bool" where
  "in_loop At_89 = False"
| "in_loop At_90 = False"
| "in_loop At_93 = False"
| "in_loop At_94 = False"
| "in_loop At_98 = False"
| "in_loop At_100 = False"
| "in_loop (At_134 pl) = (pl \<noteq> None)"
| "in_loop (At_135 pl pa) = (pl \<noteq> None \<and> pa \<noteq> None)"
| "in_loop (At_136 pl pa cl) = (pl \<noteq> None \<and> pa \<noteq> None \<and> cl \<noteq> None)"
| "in_loop Unset_passed = False"
| "in_loop _ = True"

fun past_init :: "'e main_pc \<Rightarrow> bool" where
  "past_init At_89 = False"
| "past_init At_90 = False"
| "past_init At_93 = False"
| "past_init At_94 = False"
| "past_init At_98 = False"
| "past_init At_100 = False"
| "past_init _ = True"

fun after_call :: "'e main_pc \<Rightarrow> nat" where
  "after_call (At_138 _ _ _) = 1"
| "after_call (At_139 _ _ _) = 1"
| "after_call At_153 = 1"
| "after_call (Raised_at _) = 1"
| "after_call _ = 0"

text \<open>
  A schedule in which nothing overlaps: every callback runs all its assignments in one go,
  and every pass of the loop runs from line 124 to line 153 in one go. A pass takes 3, 4
  or 5 steps when it leaves at the condition, 10 when the flag is false and 11 when it
  publishes. This is the schedule of \<open>loop\<close>, spelt out in steps.
\<close>

definition pass_steps :: "'c DBWNode \<Rightarrow> nat" where
  "pass_steps self =
     (if proposed_linear_vel self = None then 3
      else if proposed_angular_vel self = None then 4
      else if current_linear_vel self = None then 5
      else if dbw_enabled self then 11 else 10)"


text \<open>
  The (linear, angular) pairs that the controller was called with, the pairs that the
  proposals of a schedule carry, and the pair stored in the node.
\<close>

definition pair_of :: "TwistStamped \<Rightarrow> scalar \<times> scalar" where
  "pair_of msg = (twist_linear_x msg, twist_angular_z msg)"

fun control_pairs :: "effect list \<Rightarrow> (scalar \<times> scalar) list" where
  "control_pairs [] = []"
| "control_pairs (Control_called pl pa cl en # out) = (pl, pa) # control_pairs out"
| "control_pairs (_ # out) = control_pairs out"


definition stored_pair :: "'c DBWNode \<Rightarrow> (scalar \<times> scalar) list" where
  "stored_pair self =
     (case (proposed_linear_vel self, proposed_angular_vel self) of
        (Some pl, Some pa) \<Rightarrow> [(pl, pa)]
      | _ \<Rightarrow> [])"

subsection \<open>Events of a schedule, by kind\<close>

fun is_proposed :: "event \<Rightarrow> bool" where
  "is_proposed (Proposed _) = True"
| "is_proposed _ = False"

fun is_current :: "event \<Rightarrow> bool" where
  "is_current (Current _) = True"
| "is_current _ = False"

subsection \<open>Concrete inputs for the examples\<close>

text \<open>
  An empty parameter server, and one that sets the fuel capacity. A controller constructor
  that only records the nine arguments it is called with, in order. A
  \<^verbatim>\<open>TwistStamped\<close> with a given linear x, angular z and stamp. Two stand-ins for
  \<^verbatim>\<open>control\<close>: one returns its three velocity arguments as throttle, brake and
  steering; the other does the same but raises when the current velocity is negative.
\<close>

definition no_params :: "string \<rightharpoonup> scalar" where
  "no_params = Map.empty"

definition fuel_params :: "string \<rightharpoonup> scalar" where
  "fuel_params = no_params(''~fuel_capacity'' \<mapsto> 20)"

definition record_args :: "(scalar list) controller_ctor" where
  "record_args a1 a2 a3 a4 a5 a6 a7 a8 a9 = [a1, a2, a3, a4, a5, a6, a7, a8, a9]"

definition twist_msg :: "scalar \<Rightarrow> scalar \<Rightarrow> int \<Rightarrow> TwistStamped" where
  "twist_msg lin ang ns =
     \<lparr>header_seq = 0, header_stamp_secs = 0, header_stamp_nsecs = ns, header_frame_id = [],
      twist_linear_x = lin, twist_linear_y = 0, twist_linear_z = 0,
      twist_angular_x = 0, twist_angular_y = 0, twist_angular_z = ang\<rparr>"

definition enable_msg :: "bool \<Rightarrow> Bool_msg" where
  "enable_msg b = \<lparr>data = b\<rparr>"

definition echo_control :: "('c, string) control_fn" where
  "echo_control c pl pa cl en = Inr ((pl, pa, cl), c)"

definition picky_control :: "('c, string) control_fn" where
  "picky_control c pl pa cl en =
     (if cl < 0 then Inl ''negative speed'' else Inr ((pl, pa, cl), c))"

text \<open>
  The node after start-up with an empty parameter server, a proposal (5, 2), a current
  velocity and the enable flag set.
\<close>

definition driving :: "scalar \<Rightarrow> (scalar list) DBWNode" where
  "driving cl =
     dbw_enabled_cb
       (current_cb (proposed_cb (init record_args no_params) (twist_msg 5 2 1)) (twist_msg cl 0 0))
       (enable_msg True)"

text \<open>
  The assignments of a proposal (5, 2) and of a current velocity 3, each callback in one
  go, and a second proposal (4, 9).
\<close>

definition inputs_5_2_3 :: "action list" where
  "inputs_5_2_3 =
     cbs (proposed_cb_body (twist_msg 5 2 1)) @ cbs (current_cb_body (twist_msg 3 0 0))"

definition second_proposal :: TwistStamped where
  "second_proposal = twist_msg 4 9 7"

lemmas example_defs =
  init_def Let_def get_param_def no_params_def fuel_params_def record_args_def twist_msg_def
  enable_msg_def echo_control_def picky_control_def driving_def
  proposed_cb_def current_cb_def dbw_enabled_cb_def

lemmas thread_defs =
  DBWNode_threads_def starting_def constructed_def looping_def cbs_def proposed_cb_body_def
  current_cb_body_def dbw_enabled_cb_body_def inputs_5_2_3_def second_proposal_def pair_of_def
  eval_nat_numeral

section \<open>Properties\<close>

subsection \<open>Auxiliary facts\<close>

lemma publish_eq:
  "publish throttle brake steer =
     [Throttle_pub \<lparr>throttle_enable = True, throttle_pedal_cmd_type = CMD_PERCENT,
                    throttle_pedal_cmd = throttle\<rparr>,
      Steer_pub \<lparr>steering_enable = True, steering_wheel_angle_cmd = steer\<rparr>,
      Brake_pub \<lparr>brake_enable = True, brake_pedal_cmd_type = CMD_TORQUE,
                 brake_pedal_cmd = brake\<rparr>]"
  by (simp add: publish_def ThrottleCmd_new_def SteeringCmd_new_def BrakeCmd_new_def)

lemma publish_commands [simp]:
  "filter is_command (publish t b s) = publish t b s"
  "filter is_control (publish t b s) = []"
  "publish t b s \<noteq> []"
  by (simp_all add: publish_eq)

lemma tick_skip:
  "proposed_linear_vel self = None \<or> proposed_angular_vel self = None
     \<or> current_linear_vel self = None
   \<Longrightarrow> tick control self = ([], Inr self)"
  by (auto simp: tick_def)

lemma loop_no_proposed:
  "proposed_linear_vel self = None \<Longrightarrow> filter is_proposed evs = [] \<Longrightarrow>
     fst (loop control self evs) = []"
  by (induction control self evs rule: loop.induct)
     (auto simp: tick_skip current_cb_def dbw_enabled_cb_def split: if_splits)

lemma loop_no_current:
  "current_linear_vel self = None \<Longrightarrow> filter is_current evs = [] \<Longrightarrow>
     fst (loop control self evs) = []"
  by (induction control self evs rule: loop.induct)
     (auto simp: tick_skip proposed_cb_def dbw_enabled_cb_def split: if_splits)

lemma foldl_proposed_cb:
  "ms \<noteq> [] \<Longrightarrow> foldl proposed_cb self ms = proposed_cb self (last ms)"
  by (induction ms arbitrary: self) (auto simp: proposed_cb_def)

lemma foldl_current_cb:
  "ms \<noteq> [] \<Longrightarrow> foldl current_cb self ms = current_cb self (last ms)"
  by (induction ms arbitrary: self) (auto simp: current_cb_def)

lemma foldl_dbw_enabled_cb:
  "ms \<noteq> [] \<Longrightarrow> foldl dbw_enabled_cb self ms = dbw_enabled_cb self (last ms)"
  by (induction ms arbitrary: self) (auto simp: dbw_enabled_cb_def)

lemma ready_callbacks:
  "ready self \<Longrightarrow> ready (proposed_cb self m)"
  "ready self \<Longrightarrow> ready (current_cb self m)"
  "ready self \<Longrightarrow> ready (dbw_enabled_cb self b)"
  by (simp_all add: ready_def proposed_cb_def current_cb_def dbw_enabled_cb_def)

subsection \<open>Auxiliary facts about the threads\<close>

lemma assigns_simps [simp]:
  "assigns self [] = self"
  "assigns self (w # ws) = assigns (assign_to self w) ws"
  "assigns self (ws @ ws') = assigns (assigns self ws) ws'"
  by (simp_all add: assigns_def)

lemma controller_assign_to [simp]: "controller (assign_to self w) = controller self"
  by (cases w) simp_all

lemma controller_assigns [simp]: "controller (assigns self ws) = controller self"
  by (induction ws arbitrary: self) simp_all

lemma assign_to_controller:
  "assign_to (self\<lparr>controller := c\<rparr>) w = (assign_to self w)\<lparr>controller := c\<rparr>"
  by (cases w) simp_all

lemma assigns_controller:
  "assigns (self\<lparr>controller := c\<rparr>) ws = (assigns self ws)\<lparr>controller := c\<rparr>"
  by (induction ws arbitrary: self) (simp_all add: assign_to_controller)

lemma ready_assign_to: "ready self \<Longrightarrow> ready (assign_to self w)"
  by (cases w) (simp_all add: ready_def)

lemma ready_assigns: "ready self \<Longrightarrow> ready (assigns self ws)"
  by (induction ws arbitrary: self) (simp_all add: ready_assign_to)


lemma frun_append:
  "frun control t (xs @ ys) =
     (case frun control t xs of
        (o1, t1) \<Rightarrow> (case frun control t1 ys of (o2, t2) \<Rightarrow> (o1 @ o2, t2)))"
  by (induction xs arbitrary: t) (auto split: prod.splits)

lemma frun_cbs: "frun control t (cbs ws) = ([], t\<lparr>obj := assigns (obj t) ws\<rparr>)"
  by (induction ws arbitrary: t) (simp_all add: cbs_def)




lemma pass_steps_controller [simp]: "pass_steps (self\<lparr>controller := c\<rparr>) = pass_steps self"
  by (simp add: pass_steps_def)




lemma control_pairs_append [simp]:
  "control_pairs (xs @ ys) = control_pairs xs @ control_pairs ys"
  by (induction xs rule: control_pairs.induct) simp_all

lemma control_pairs_publish [simp]: "control_pairs (publish t b s) = []"
  by (simp add: publish_eq)


lemma stored_pair_controller [simp]: "stored_pair (self\<lparr>controller := c\<rparr>) = stored_pair self"
  by (simp add: stored_pair_def)


text \<open>
  Once the main thread is in the loop with the fields set, every step of any thread keeps
  it so, and the calls of the controller keep pace with the passes: a step at line 136
  adds a call, a step at line 153 completes a pass.
\<close>

lemma past_init_main_at:
  "ready self \<Longrightarrow> past_init pc \<Longrightarrow> main_at control pc self sd = (out, pc', self') \<Longrightarrow>
     ready self' \<and> past_init pc'"
  by (cases "(control, pc, self, sd)" rule: main_at.cases)
     (auto simp: ready_def split: sum.splits prod.splits if_splits)

lemma past_init_frun:
  "ready (obj t) \<Longrightarrow> past_init (main t) \<Longrightarrow>
     ready (obj (snd (frun control t acts))) \<and> past_init (main (snd (frun control t acts)))"
proof (induction acts arbitrary: t)
  case Nil
  then show ?case by simp
next
  case (Cons a acts)
  obtain o1 t1 where s: "fstep control a t = (o1, t1)"
    by (cases "fstep control a t")
  have "ready (obj t1) \<and> past_init (main t1)"
  proof (cases a)
    case Main
    obtain o2 pc' self' where m: "main_at control (main t) (obj t) (shut t) = (o2, pc', self')"
      by (cases "main_at control (main t) (obj t) (shut t)")
    from past_init_main_at [OF Cons.prems m] m s Main show ?thesis
      by auto
  next
    case (Callback w)
    with Cons.prems s show ?thesis
      by (auto simp: ready_assign_to)
  next
    case Signal_shutdown
    with Cons.prems s show ?thesis
      by auto
  qed
  with Cons.IH [of t1] s show ?case
    by (cases "frun control t1 acts") simp
qed

lemma inv_main_at:
  assumes "ready self" and "in_loop pc" and "main_at control pc self sd = (out, pc', self')"
  shows "ready self' \<and> in_loop pc'
    \<and> length (filter is_control out) + after_call pc
        = (if pc = At_153 then 1 else 0) + after_call pc'"
proof (cases pc)
  case (At_136 pl pa cl)
  with assms(2) obtain a b c where "pl = Some a" "pa = Some b" "cl = Some c"
    by auto
  with At_136 assms show ?thesis
    by (auto simp: ready_def split: sum.splits prod.splits)
qed (use assms in \<open>auto simp: ready_def split: if_splits\<close>)

lemma inv_fstep:
  assumes "ready (obj t)" and "in_loop (main t)" and "fstep control a t = (out, t')"
  shows "ready (obj t') \<and> in_loop (main t')
    \<and> length (filter is_control out) + after_call (main t)
        = (if a = Main \<and> main t = At_153 then 1 else 0) + after_call (main t')"
proof (cases a)
  case Main
  obtain o1 pc' self' where m: "main_at control (main t) (obj t) (shut t) = (o1, pc', self')"
    by (cases "main_at control (main t) (obj t) (shut t)")
  from inv_main_at [OF assms(1,2) m] m assms(3) Main show ?thesis
    by auto
next
  case (Callback w)
  with assms show ?thesis
    by (auto simp: ready_assign_to)
next
  case Signal_shutdown
  with assms show ?thesis
    by auto
qed

lemma inv_frun:
  "ready (obj t) \<Longrightarrow> in_loop (main t) \<Longrightarrow> frun control t acts = (out, t') \<Longrightarrow>
     ready (obj t') \<and> in_loop (main t')
     \<and> length (filter is_control out) + after_call (main t)
         = sleeps control t acts + after_call (main t')"
proof (induction acts arbitrary: t out t')
  case Nil
  then show ?case by simp
next
  case (Cons a acts)
  obtain o1 t1 where s: "fstep control a t = (o1, t1)"
    by (cases "fstep control a t")
  obtain o2 t2 where r: "frun control t1 acts = (o2, t2)"
    by (cases "frun control t1 acts")
  from inv_fstep [OF Cons.prems(1,2) s]
  have i1: "ready (obj t1)" "in_loop (main t1)"
    "length (filter is_control o1) + after_call (main t)
       = (if a = Main \<and> main t = At_153 then 1 else 0) + after_call (main t1)"
    by auto
  from Cons.IH [OF i1(1,2) r]
  have i2: "ready (obj t2)" "in_loop (main t2)"
    "length (filter is_control o2) + after_call (main t1)
       = sleeps control t1 acts + after_call (main t2)"
    by auto
  from Cons.prems(3) s r have "out = o1 @ o2" "t' = t2"
    by auto
  with i1 i2 s show ?case
    by auto
qed

subsection \<open>Passes before the inputs have arrived\<close>

text \<open>
  C1. A pass of the loop body made while \<^verbatim>\<open>proposed_linear_vel\<close>,
  \<^verbatim>\<open>proposed_angular_vel\<close> or \<^verbatim>\<open>current_linear_vel\<close> is still unset does not call
  \<^verbatim>\<open>Controller.control\<close>, publishes nothing and leaves the node as it was. Hence a
  run of the node from start-up in which no proposal has arrived, or no current velocity
  has arrived, has no effect at all, however many passes it makes.
\<close>

theorem tick_unset_silent:
  "(proposed_linear_vel self = None \<or> proposed_angular_vel self = None
      \<or> current_linear_vel self = None
    \<longrightarrow> tick control self = ([], Inr self))
   \<and> (filter is_proposed evs = [] \<or> filter is_current evs = []
    \<longrightarrow> fst (DBWNode_main Controller control ps evs) = [])"
proof -
  have "proposed_linear_vel (init Controller ps) = None"
    and "current_linear_vel (init Controller ps) = None"
    by (simp_all add: init_def Let_def)
  then show ?thesis
    by (auto simp: tick_skip DBWNode_main_def loop_no_proposed loop_no_current)
qed

theorem tick_unset_silent_witness:
  "current_linear_vel (proposed_cb (init record_args no_params) (twist_msg 5 2 1)) = None
   \<and> tick echo_control (proposed_cb (init record_args no_params) (twist_msg 5 2 1))
       = ([], Inr (proposed_cb (init record_args no_params) (twist_msg 5 2 1)))
   \<and> filter is_current [Proposed (twist_msg 5 2 1), Enabled (enable_msg True), Tick, Tick] = []
   \<and> fst (DBWNode_main record_args echo_control no_params
            [Proposed (twist_msg 5 2 1), Enabled (enable_msg True), Tick, Tick]) = []"
  using tick_unset_silent [of "proposed_cb (init record_args no_params) (twist_msg 5 2 1)"
      echo_control "[Proposed (twist_msg 5 2 1), Enabled (enable_msg True), Tick, Tick]"
      record_args no_params]
  by (simp add: init_def Let_def proposed_cb_def)

subsection \<open>Passes once the inputs have arrived\<close>

text \<open>
  C2, as stated: on a pass made with a proposal and a current velocity stored, the
  controller is called with the enable flag, and the triple goes to \<^verbatim>\<open>publish\<close>
  exactly when that flag is true. The flag is read twice, at line 136 for the call and at
  line 138 for the test, and \<^verbatim>\<open>dbw_enabled_cb\<close> can assign it in between. The node
  starts, a proposal (5, 2) and a current velocity 3 arrive, and a pass runs up to the
  call: the controller is called with the flag false. The enable signal arrives; the
  pass goes on, reads the flag true at line 138 and publishes the triple.
\<close>

theorem enable_race_counterexample:
  "fst (DBWNode_threads record_args echo_control no_params
     (replicate 6 Main @ inputs_5_2_3
      @ replicate 8 Main @ cbs (dbw_enabled_cb_body (enable_msg True)) @ replicate 3 Main))
   = Control_called 5 2 3 False # publish 5 2 3"
  by (simp add: thread_defs example_defs)

text \<open>
  C2, amended: on a pass that starts with a proposal and a current velocity stored,
  whatever assignments of callbacks fall between its steps, the controller is called
  once, with the proposed linear velocity, the proposed angular velocity and the current
  linear velocity as read at lines 133, 134 and 135 and the enable flag as read at line
  136, whatever the flag is. When the call returns a triple, the commands of the pass are
  those of \<^verbatim>\<open>publish\<close> on that triple if the flag is true when read again at line
  138, and none if it is false then. When no assignment falls between the call and line
  138, that is the flag the controller was called with.

  \<open>w0\<close> to \<open>w8\<close> are the assignments that fall after the steps at lines 124, 128, 129,
  130, 133, 134, 135, 136 and 138.
\<close>

theorem pass_interleaved:
  assumes "ready self"
  shows "let n3 = assigns self (w0 @ w1 @ w2 @ w3);
             n4 = assigns n3 w4;
             n5 = assigns n4 w5;
             n6 = assigns n5 w6;
             n7 = assigns n6 w7;
             pl = the (proposed_linear_vel n3);
             pa = the (proposed_angular_vel n4);
             cl = the (current_linear_vel n5);
             out = fst (frun control (looping self)
                     (Main # cbs w0 @ Main # cbs w1 @ Main # cbs w2 @ Main # cbs w3
                      @ Main # cbs w4 @ Main # cbs w5 @ Main # cbs w6
                      @ Main # cbs w7 @ Main # cbs w8 @ [Main]))
         in filter is_control out = [Control_called pl pa cl (dbw_enabled n6)]
            \<and> (control (controller self) pl pa cl (dbw_enabled n6)
                  = Inr ((throttle, brake, steering), c')
                \<longrightarrow> filter is_command out
                      = (if dbw_enabled n7 then publish throttle brake steering else [])
                  \<and> (filter is_command out \<noteq> []) = dbw_enabled n7
                  \<and> (w7 = [] \<longrightarrow> (filter is_command out \<noteq> []) = dbw_enabled n6))"
proof -
  define n0 where "n0 = assigns self w0"
  define n1 where "n1 = assigns n0 w1"
  define n2 where "n2 = assigns n1 w2"
  define n3 where "n3 = assigns n2 w3"
  define n4 where "n4 = assigns n3 w4"
  define n5 where "n5 = assigns n4 w5"
  define n6 where "n6 = assigns n5 w6"
  note defs = n0_def n1_def n2_def n3_def n4_def n5_def n6_def
  from assms have r: "ready n0" "ready n1" "ready n2" "ready n3" "ready n4" "ready n5"
    by (simp_all add: defs ready_assigns)
  then obtain g0 g1 g2 pl pa cl where v:
    "proposed_linear_vel n0 = Some g0" "proposed_angular_vel n1 = Some g1"
    "current_linear_vel n2 = Some g2"
    "proposed_linear_vel n3 = Some pl" "proposed_angular_vel n4 = Some pa"
    "current_linear_vel n5 = Some cl"
    by (auto simp: ready_def)
  have c: "controller n6 = controller self"
    by (simp add: defs)
  show ?thesis
    unfolding Let_def
    by (cases "control (controller self) pl pa cl (dbw_enabled n6)")
       (auto simp: looping_def frun_append frun_cbs assigns_controller
          defs [symmetric] v c split: prod.splits)
qed

theorem pass_interleaved_witness:
  "ready (dbw_enabled_cb (driving 3) (enable_msg False))
   \<and> fst (frun echo_control (looping (dbw_enabled_cb (driving 3) (enable_msg False)))
       (Main # Main # Main # Main # Main # cbs (proposed_cb_body second_proposal)
        @ Main # Main # Main # cbs (dbw_enabled_cb_body (enable_msg True)) @ [Main, Main]))
     = Control_called 5 9 3 False # publish 5 9 3
   \<and> ready (driving 3)
   \<and> fst (frun echo_control (looping (driving 3)) (replicate 10 Main))
     = Control_called 5 2 3 True # publish 5 2 3"
proof -
  have r: "ready (dbw_enabled_cb (driving 3) (enable_msg False))" "ready (driving 3)"
    by (simp_all add: ready_def example_defs)
  from pass_interleaved [OF r(1), of "[]" "[]" "[]" "[]" "proposed_cb_body second_proposal"
      "[]" "[]" "dbw_enabled_cb_body (enable_msg True)" echo_control "[]" 5 9 3
      "controller (driving 3)"]
    pass_interleaved [OF r(2), of "[]" "[]" "[]" "[]" "[]" "[]" "[]" "[]" echo_control "[]" 5 2 3
      "controller (driving 3)"]
  show ?thesis
    apply (simp add: Let_def r)
    apply (simp add: thread_defs example_defs)
    done
qed

subsection \<open>The three commands\<close>

text \<open>
  C3. For every triple (throttle, brake, steering), \<^verbatim>\<open>publish\<close> hands out exactly
  three messages, each once: a throttle command of type percent with the throttle value,
  a steering command with the steering value, and a brake command of type torque with the
  brake value. Each of the three has its own enable flag set to true.
\<close>

theorem publish_three:
  "publish throttle brake steer =
     [Throttle_pub \<lparr>throttle_enable = True, throttle_pedal_cmd_type = CMD_PERCENT,
                    throttle_pedal_cmd = throttle\<rparr>,
      Steer_pub \<lparr>steering_enable = True, steering_wheel_angle_cmd = steer\<rparr>,
      Brake_pub \<lparr>brake_enable = True, brake_pedal_cmd_type = CMD_TORQUE,
                 brake_pedal_cmd = brake\<rparr>]
   \<and> length (publish throttle brake steer) = 3
   \<and> map enable_flag (publish throttle brake steer) = [Some True, Some True, Some True]"
  by (simp add: publish_eq)

subsection \<open>An exception of the controller\<close>

text \<open>
  C4, as stated: when \<^verbatim>\<open>Controller.control\<close> raises on a pass, no command is emitted
  on that pass, and the loop goes on to the next pass. The second half fails. With a
  controller that raises on a negative current velocity, the node is fed a proposal, a
  current velocity of -1 and the enable signal; the first pass raises. A current velocity
  of 3 arrives and a second pass is due, on which the controller would return and three
  commands would go out. The run has ended at the first pass with the exception: one call
  of the controller, no command, no second call.
\<close>

theorem control_exception_counterexample:
  "loop picky_control (init record_args no_params)
     [Proposed (twist_msg 5 2 1), Current (twist_msg (- 1) 0 0), Enabled (enable_msg True),
      Tick, Current (twist_msg 3 0 0), Tick]
   = ([Control_called 5 2 (- 1) True], Raised ''negative speed'')"
  by (simp add: example_defs tick_def)

text \<open>
  C4, amended: when \<^verbatim>\<open>Controller.control\<close> raises on a pass, the pass has called the
  controller and emitted no command, not even part of a triple, and the exception leaves
  the loop: the run ends there with that exception, and nothing scheduled after the pass
  is carried out.
\<close>

theorem control_exception_ends_loop:
  assumes "proposed_linear_vel self = Some pl"
    and "proposed_angular_vel self = Some pa"
    and "current_linear_vel self = Some cl"
    and "control (controller self) pl pa cl (dbw_enabled self) = Inl e"
  shows "tick control self = ([Control_called pl pa cl (dbw_enabled self)], Inl e)
    \<and> loop control self (Tick # evs) = ([Control_called pl pa cl (dbw_enabled self)], Raised e)"
  using assms by (simp add: tick_def)

theorem control_exception_ends_loop_witness:
  "picky_control (controller (driving (- 1))) 5 2 (- 1) True = Inl ''negative speed''
   \<and> loop picky_control (driving (- 1)) [Tick, Current (twist_msg 3 0 0), Tick]
       = ([Control_called 5 2 (- 1) True], Raised ''negative speed'')"
  using control_exception_ends_loop [of "driving (- 1)" 5 2 "- 1" picky_control
      "''negative speed''" "[Current (twist_msg 3 0 0), Tick]"]
  by (simp add: example_defs)

subsection \<open>A pass that overlaps a proposal callback\<close>




subsection \<open>The configuration options\<close>

text \<open>
  C6, as stated: all ten options are passed into the constructor of the controller. With
  the fuel capacity set to 20 on the parameter server, the constructor is called with the
  nine arguments below, and 20 is not among them.
\<close>

theorem ctor_args_counterexample:
  "get_param fuel_params ''~fuel_capacity'' 13.5 = 20
   \<and> controller (init record_args fuel_params)
       = [1736.35, 0.2413, 1, - 5, 2.8498, 14.8, 0.1, 3, 8]
   \<and> get_param fuel_params ''~fuel_capacity'' 13.5
       \<notin> set (controller (init record_args fuel_params))"
  by (simp add: example_defs)

text \<open>
  C6, amended: eight of the ten options, each read with its default, are passed to the
  constructor of the controller as they are: vehicle_mass, wheel_radius, accel_limit,
  decel_limit, wheel_base, steer_ratio, then the literal 0.1, then max_lat_accel and
  max_steer_angle. fuel_capacity and brake_deadband are read and passed nowhere: setting
  either changes nothing in the node. The loop does not interpret any option: two
  parameter servers that give the same controller give the same run.
\<close>

theorem ctor_args:
  "controller (init Controller ps) =
     Controller (get_param ps ''~vehicle_mass'' 1736.35)
       (get_param ps ''~wheel_radius'' 0.2413)
       (get_param ps ''~accel_limit'' 1)
       (get_param ps ''~decel_limit'' (- 5))
       (get_param ps ''~wheel_base'' 2.8498)
       (get_param ps ''~steer_ratio'' 14.8)
       0.1
       (get_param ps ''~max_lat_accel'' 3)
       (get_param ps ''~max_steer_angle'' 8)
   \<and> init Controller (ps(''~fuel_capacity'' \<mapsto> v)) = init Controller ps
   \<and> init Controller (ps(''~brake_deadband'' \<mapsto> v)) = init Controller ps
   \<and> (controller (init Controller ps) = controller (init Controller ps')
        \<longrightarrow> DBWNode_main Controller control ps evs = DBWNode_main Controller control ps' evs)"
  by (simp add: init_def Let_def get_param_def DBWNode_main_def)

theorem ctor_args_witness:
  "controller (init record_args no_params) = [1736.35, 0.2413, 1, - 5, 2.8498, 14.8, 0.1, 3, 8]
   \<and> controller (init record_args no_params) = controller (init record_args fuel_params)
   \<and> DBWNode_main record_args echo_control no_params [Tick]
       = DBWNode_main record_args echo_control fuel_params [Tick]"
  using ctor_args [of record_args no_params 20 fuel_params echo_control "[Tick]"]
  by (simp add: init_def Let_def get_param_def no_params_def fuel_params_def record_args_def)

subsection \<open>Start-up state\<close>

text \<open>
  C7. At process start, before any update has been received, the two proposal fields and
  the current-velocity field are unset (\<^verbatim>\<open>None\<close>) and the enable flag is false,
  whatever the parameter server holds and whatever controller is constructed.
\<close>

theorem init_unset:
  "proposed_linear_vel (init Controller ps) = None
   \<and> proposed_angular_vel (init Controller ps) = None
   \<and> current_linear_vel (init Controller ps) = None
   \<and> dbw_enabled (init Controller ps) = False"
  by (simp add: init_def Let_def)

subsection \<open>The update channels\<close>

text \<open>
  C8. Each channel keeps the last value only. After any non-empty sequence of proposals
  the node is as if the last proposal alone had arrived, and its proposal fields hold
  that proposal's linear x, angular z and stamp, whatever was stored before. The same
  holds for a sequence of current velocities and the current-velocity field, and for a
  sequence of enable signals and the enable flag.
\<close>

theorem last_value_wins:
  assumes "pmsgs \<noteq> []" and "cmsgs \<noteq> []" and "emsgs \<noteq> []"
  shows "foldl proposed_cb self pmsgs = proposed_cb self (last pmsgs)
    \<and> proposed_linear_vel (foldl proposed_cb self pmsgs) = Some (twist_linear_x (last pmsgs))
    \<and> proposed_angular_vel (foldl proposed_cb self pmsgs) = Some (twist_angular_z (last pmsgs))
    \<and> time_nsecs (foldl proposed_cb self pmsgs) = Some (header_stamp_nsecs (last pmsgs))
    \<and> foldl current_cb self cmsgs = current_cb self (last cmsgs)
    \<and> current_linear_vel (foldl current_cb self cmsgs) = Some (twist_linear_x (last cmsgs))
    \<and> foldl dbw_enabled_cb self emsgs = dbw_enabled_cb self (last emsgs)
    \<and> dbw_enabled (foldl dbw_enabled_cb self emsgs) = data (last emsgs)"
  using assms
  by (simp add: foldl_proposed_cb foldl_current_cb foldl_dbw_enabled_cb)
     (simp add: proposed_cb_def current_cb_def dbw_enabled_cb_def)

theorem last_value_wins_witness:
  "proposed_linear_vel (foldl proposed_cb (driving 3) [twist_msg 1 2 3, twist_msg 4 5 6])
     = Some 4
   \<and> proposed_angular_vel (foldl proposed_cb (driving 3) [twist_msg 1 2 3, twist_msg 4 5 6])
     = Some 5
   \<and> time_nsecs (foldl proposed_cb (driving 3) [twist_msg 1 2 3, twist_msg 4 5 6]) = Some 6
   \<and> current_linear_vel (foldl current_cb (driving 3) [twist_msg 7 0 0, twist_msg 8 0 0])
     = Some 8
   \<and> dbw_enabled (foldl dbw_enabled_cb (driving 3)
       [enable_msg True, enable_msg False, enable_msg True]) = True"
  using last_value_wins [of "[twist_msg 1 2 3, twist_msg 4 5 6]"
      "[twist_msg 7 0 0, twist_msg 8 0 0]" "[enable_msg True, enable_msg False, enable_msg True]"
      "driving 3"]
  by (simp add: example_defs)

text \<open>
  C9, as stated: once the proposed linear velocity, the proposed angular velocity and the
  current linear velocity are all set, nothing in the node unsets them, so every later
  pass calls the controller. \<^verbatim>\<open>__init__\<close> registers the subscribers (lines 83 to
  87) before it assigns \<^verbatim>\<open>None\<close> to the fields (lines 89 to 93). A proposal and a
  current velocity arrive before line 89: the three fields are set. The main thread then
  runs lines 89 to 100 and they are unset again; the pass that follows completes without
  a call of the controller.
\<close>

theorem init_unsets_counterexample:
  "ready (obj (snd (DBWNode_threads record_args echo_control no_params inputs_5_2_3)))
   \<and> \<not> ready (obj (snd (DBWNode_threads record_args echo_control no_params
            (inputs_5_2_3 @ replicate 6 Main))))
   \<and> DBWNode_threads record_args echo_control no_params
        (inputs_5_2_3 @ replicate 6 Main @ replicate 3 Main)
     = ([], looping (init record_args no_params))
   \<and> sleeps echo_control (starting record_args no_params)
        (inputs_5_2_3 @ replicate 6 Main @ replicate 3 Main) = 1"
  by (simp add: ready_def thread_defs example_defs)

text \<open>
  C9, amended: readiness is monotone once \<^verbatim>\<open>__init__\<close> has made its assignments and
  the main thread is in the loop. From a node whose proposed linear velocity, proposed
  angular velocity and current linear velocity are all set, each callback, and each
  single assignment of a callback, leaves them set; and after any schedule of steps of
  the main thread, assignments of callbacks and the shutdown signal, in any order, they
  are still set, wherever in the loop the main thread was when they became set. Counted
  from the head of the loop, the controller has never been handed an unset argument, and
  every pass completed has called the controller: the passes completed are at most the
  calls made.
\<close>

theorem readiness_monotone:
  fixes control :: "('c, 'e) control_fn"
  assumes "ready self"
  shows "ready (proposed_cb self m) \<and> ready (current_cb self m') \<and> ready (dbw_enabled_cb self b)
    \<and> ready (assign_to self w)
    \<and> (past_init pc
        \<longrightarrow> ready (obj (snd (frun control \<lparr>main = pc, obj = self, shut = sd\<rparr> acts))))
    \<and> ready (obj (snd (frun control (looping self) acts)))
    \<and> main (snd (frun control (looping self) acts)) \<noteq> Unset_passed
    \<and> sleeps control (looping self) acts
        \<le> length (filter is_control (fst (frun control (looping self) acts)))"
proof -
  define t0 :: "('c, 'e) threads" where "t0 = looping self"
  obtain out t' where r: "frun control t0 acts = (out, t')"
    by (cases "frun control t0 acts")
  have "ready (obj t0)" "in_loop (main t0)"
    using assms by (simp_all add: t0_def looping_def)
  from inv_frun [OF this r]
  have "ready (obj t')" "in_loop (main t')"
    "length (filter is_control out) + after_call (main t0)
       = sleeps control t0 acts + after_call (main t')"
    by auto
  moreover have "after_call (main t0) = 0"
    by (simp add: t0_def looping_def)
  ultimately have "ready (obj t')" "main t' \<noteq> Unset_passed"
    "sleeps control t0 acts \<le> length (filter is_control out)"
    by auto
  moreover have "past_init pc
      \<Longrightarrow> ready (obj (snd (frun control \<lparr>main = pc, obj = self, shut = sd\<rparr> acts)))"
    using past_init_frun [of "\<lparr>main = pc, obj = self, shut = sd\<rparr>" control acts] assms
    by simp
  ultimately show ?thesis
    using r assms by (simp add: t0_def ready_callbacks ready_assign_to)
qed

theorem readiness_monotone_witness:
  "ready (driving 3)
   \<and> past_init (At_153 :: string main_pc)
   \<and> ready (obj (snd (frun echo_control \<lparr>main = At_153, obj = driving 3, shut = False\<rparr>
        (replicate 5 Main @ cbs (proposed_cb_body second_proposal) @ replicate 18 Main))))
   \<and> ready (obj (snd (frun echo_control (looping (driving 3))
        (replicate 5 Main @ cbs (proposed_cb_body second_proposal) @ replicate 18 Main))))
   \<and> sleeps echo_control (looping (driving 3))
        (replicate 5 Main @ cbs (proposed_cb_body second_proposal) @ replicate 18 Main) = 2
   \<and> filter is_control (fst (frun echo_control (looping (driving 3))
        (replicate 5 Main @ cbs (proposed_cb_body second_proposal) @ replicate 18 Main)))
     = [Control_called 5 9 3 True, Control_called 4 9 3 True]"
proof -
  have r: "ready (driving 3)"
    by (simp add: ready_def example_defs)
  from readiness_monotone [OF r, of _ _ _ _ At_153 echo_control False
      "replicate 5 Main @ cbs (proposed_cb_body second_proposal) @ replicate 18 Main"] r
  show ?thesis
    by (simp add: thread_defs example_defs)
qed

text \<open>
  C10. Each callback writes the fields of its own entity only. Putting back the old
  current velocity after the current-velocity callback gives the node as it was, fields of
  the other entities and controller included; so does putting back the old enable flag
  after the enable callback, and putting back the old proposed linear velocity, proposed
  angular velocity and stamp after the proposal callback.
\<close>

theorem callbacks_frame:
  "(proposed_cb self m)\<lparr>proposed_linear_vel := proposed_linear_vel self,
       proposed_angular_vel := proposed_angular_vel self,
       time_nsecs := time_nsecs self\<rparr> = self
   \<and> (current_cb self m)\<lparr>current_linear_vel := current_linear_vel self\<rparr> = self
   \<and> (dbw_enabled_cb self b)\<lparr>dbw_enabled := dbw_enabled self\<rparr> = self"
  by (simp add: proposed_cb_def current_cb_def dbw_enabled_cb_def)

end
